theory Spec2Isabelle
  imports Main
begin

section \<open>GoRODS: the Client facade (client.go)\<close>

subsection \<open>Data declared outside client.go\<close>

text \<open>
  client.go uses the types \<open>ConnectionOptions\<close>, \<open>CollectionOptions\<close>, \<open>Connection\<close>,
  \<open>Collection\<close>, the error constructor \<open>newError\<close> and the level \<open>Fatal\<close>, all declared
  in files of the package that are not part of the sources. The option records carry the
  fields the usage document sets; the error kinds are the taxonomy of the specification.
\<close>

datatype ConnectionType = EnvironmentDefined | UserDefined

datatype AuthMechanism = PasswordAuth | PAMAuth

record ConnectionOptions =
  Type :: ConnectionType
  AuthType :: AuthMechanism
  PAMPassFile :: string
  PAMPassExpire :: int
  Host :: string
  Port :: int
  Zone :: string
  Username :: string
  Password :: string
  Ticket :: string

record CollectionOptions =
  Path :: string
  Recursive :: bool
  GetRepls :: bool

datatype ErrorKind =
    AuthFailure | NetworkFailure | Disconnected | AlreadyDisconnected
  | NotFound | PermissionDenied | AlreadyExists | DuplicateAVU | UnknownPrincipal
  | OutOfRange | IOError | ProtocolError | Timeout | Fatal

datatype error = GoRodsError ErrorKind string

text \<open>
  Modelled from the spec: \<open>newError\<close> is not in the sources; it builds an error of the
  given kind that carries the given message.
\<close>

definition newError :: "ErrorKind \<Rightarrow> string \<Rightarrow> error" where
  "newError k msg = GoRodsError k msg"

text \<open>\<open>*Connection\<close> and \<open>*Collection\<close> are references; only their identity matters here.\<close>

datatype Connection = ConnectionRef nat

datatype Collection = CollectionRef nat

subsection \<open>The calls client.go makes into the rest of the package\<close>

text \<open>
  \<open>NewConnection\<close>, \<open>Connection.Collection\<close>, \<open>Collection.Close\<close>,
  \<open>Connection.Disconnect\<close> and the \<open>Error()\<close> text that \<open>%v\<close> prints are code the
  sources do not contain. They are parameters of the model: each is a function of the
  state \<open>'s\<close> of everything outside the facade (the remote grid, the open sessions), and
  returns its Go result together with the new state. An \<open>error\<close> result that is \<open>nil\<close>
  is \<open>None\<close>; a \<open>(value, error)\<close> pair is a sum with the error on the left.
\<close>

record 's Package =
  NewConnection :: "ConnectionOptions option \<Rightarrow> 's \<Rightarrow> (error + Connection) \<times> 's"
  Connection_Collection :: "Connection \<Rightarrow> CollectionOptions \<Rightarrow> 's \<Rightarrow> (error + Collection) \<times> 's"
  Collection_Close :: "Collection \<Rightarrow> 's \<Rightarrow> error option \<times> 's"
  Connection_Disconnect :: "Connection \<Rightarrow> 's \<Rightarrow> error option \<times> 's"
  Error_text :: "error \<Rightarrow> string"

text \<open>The calls a facade function makes, in the order it makes them.\<close>

datatype call =
    CallNewConnection "ConnectionOptions option"
  | CallCollection Connection CollectionOptions
  | CallHandler Collection Connection
  | CallClose Collection
  | CallDisconnect Connection

subsection \<open>Client, OpenConnection and New\<close>

text \<open>
  \<open>type Client struct { Options *ConnectionOptions; ConnectErr error }\<close>. Both fields
  can be \<open>nil\<close>.
\<close>

record Client =
  Options :: "ConnectionOptions option"
  ConnectErr :: "error option"

text \<open>
  A facade function runs in the state of the package together with the list of the calls
  made so far. Each call into the package, and the call of the handler, goes through one
  of the following steps, which performs the call on the state and appends it to the
  list: the list is what the calls leave behind, not something a facade function writes.
\<close>

definition step_NewConnection ::
  "'s Package \<Rightarrow> ConnectionOptions option \<Rightarrow> 's \<times> call list
     \<Rightarrow> (error + Connection) \<times> 's \<times> call list" where
  "step_NewConnection pkg copts w =
    (case NewConnection pkg copts (fst w) of
       (r, s') \<Rightarrow> (r, s', snd w @ [CallNewConnection copts]))"

definition step_Collection ::
  "'s Package \<Rightarrow> Connection \<Rightarrow> CollectionOptions \<Rightarrow> 's \<times> call list
     \<Rightarrow> (error + Collection) \<times> 's \<times> call list" where
  "step_Collection pkg con opts w =
    (case Connection_Collection pkg con opts (fst w) of
       (r, s') \<Rightarrow> (r, s', snd w @ [CallCollection con opts]))"

definition step_handler ::
  "(Collection \<Rightarrow> Connection \<Rightarrow> 's \<Rightarrow> 's) \<Rightarrow> Collection \<Rightarrow> Connection \<Rightarrow> 's \<times> call list
     \<Rightarrow> 's \<times> call list" where
  "step_handler handler col con w = (handler col con (fst w), snd w @ [CallHandler col con])"

definition step_Close ::
  "'s Package \<Rightarrow> Collection \<Rightarrow> 's \<times> call list \<Rightarrow> error option \<times> 's \<times> call list" where
  "step_Close pkg col w =
    (case Collection_Close pkg col (fst w) of
       (r, s') \<Rightarrow> (r, s', snd w @ [CallClose col]))"

definition step_Disconnect ::
  "'s Package \<Rightarrow> Connection \<Rightarrow> 's \<times> call list \<Rightarrow> error option \<times> 's \<times> call list" where
  "step_Disconnect pkg con w =
    (case Connection_Disconnect pkg con (fst w) of
       (r, s') \<Rightarrow> (r, s', snd w @ [CallDisconnect con]))"

text \<open>
  \<open>func (cli *Client) OpenConnection(opts CollectionOptions,
  handler func(*Collection, *Connection)) error\<close>. The result is the returned error, the
  state after the call and the calls made. The handler is any function of the state; a
  handler that panics is not modelled.
\<close>

definition OpenConnection ::
  "'s Package \<Rightarrow> Client \<Rightarrow> CollectionOptions \<Rightarrow> (Collection \<Rightarrow> Connection \<Rightarrow> 's \<Rightarrow> 's) \<Rightarrow> 's
     \<Rightarrow> error option \<times> 's \<times> call list" where
  "OpenConnection pkg cli opts handler s =
    (case ConnectErr cli of
       None \<Rightarrow>
         (case step_NewConnection pkg (Options cli) (s, []) of
            (Inr con, w1) \<Rightarrow>
              (case step_Collection pkg con opts w1 of
                 (Inl colEr, w2) \<Rightarrow>
                   (Some (newError Fatal (''Can't open new connection: '' @ Error_text pkg colEr)),
                    w2)
               | (Inr col, w2) \<Rightarrow>
                   (let w3 = step_handler handler col con w2 in
                    case step_Close pkg col w3 of
                      (Some er, w4) \<Rightarrow> (Some er, w4)
                    | (None, w4) \<Rightarrow>
                        (case step_Disconnect pkg con w4 of
                           (Some er, w5) \<Rightarrow> (Some er, w5)
                         | (None, w5) \<Rightarrow> (None, w5))))
          | (Inl err, w1) \<Rightarrow>
              (Some (newError Fatal (''Can't open new connection: '' @ Error_text pkg err)),
               w1))
     | Some connectErr \<Rightarrow>
         (Some (newError Fatal (''Can't open new connection: '' @ Error_text pkg connectErr)),
          (s, [])))"

text \<open>
  \<open>func New(opts ConnectionOptions) (*Client, error)\<close>. The first component of the result
  is the pair the Go function returns: the client (\<open>None\<close> for \<open>nil\<close>) and the error.
  The test connection is not used again.
\<close>

definition New ::
  "'s Package \<Rightarrow> ConnectionOptions \<Rightarrow> 's \<Rightarrow> (Client option \<times> error option) \<times> 's \<times> call list" where
  "New pkg opts s =
    (let cli = \<lparr>Options = None, ConnectErr = None\<rparr>;
         cli = cli\<lparr>Options := Some opts\<rparr>
     in case step_NewConnection pkg (Options cli) (s, []) of
          (Inl err, w1) \<Rightarrow>
            (let cli = cli\<lparr>ConnectErr := Some err\<rparr>
             in ((None, Some err), w1))
        | (Inr con, w1) \<Rightarrow>
            ((Some cli, None), w1))"

text \<open>Projections of a facade result.\<close>

definition returned :: "'r \<times> 's \<times> call list \<Rightarrow> 'r" where
  "returned r = fst r"

definition state_after :: "'r \<times> 's \<times> call list \<Rightarrow> 's" where
  "state_after r = fst (snd r)"

definition calls :: "'r \<times> 's \<times> call list \<Rightarrow> call list" where
  "calls r = snd (snd r)"

text \<open>Which options \<open>NewConnection\<close> was called with, and which connections were used.\<close>

fun new_connection_calls :: "call list \<Rightarrow> ConnectionOptions option list" where
  "new_connection_calls [] = []"
| "new_connection_calls (CallNewConnection copts # cs) = copts # new_connection_calls cs"
| "new_connection_calls (c # cs) = new_connection_calls cs"

fun connections_used :: "call list \<Rightarrow> Connection list" where
  "connections_used [] = []"
| "connections_used (CallNewConnection copts # cs) = connections_used cs"
| "connections_used (CallCollection con opts # cs) = con # connections_used cs"
| "connections_used (CallHandler col con # cs) = con # connections_used cs"
| "connections_used (CallClose col # cs) = connections_used cs"
| "connections_used (CallDisconnect con # cs) = con # connections_used cs"

fun handler_calls :: "call list \<Rightarrow> (Collection \<times> Connection) list" where
  "handler_calls [] = []"
| "handler_calls (CallHandler col con # cs) = (col, con) # handler_calls cs"
| "handler_calls (c # cs) = handler_calls cs"

fun ErrorKind_of :: "error \<Rightarrow> ErrorKind" where
  "ErrorKind_of (GoRodsError k msg) = k"

subsection \<open>A scripted collaborator\<close>

text \<open>
  Modelled from the spec: the RemoteSession collaborator of section 6, whose code is not
  in the sources, reduced to what the facade can observe. The grid hands out references
  in sequence, remembers which sessions are connected and which collections are open, and
  fails a kind of call exactly when the script names an error for it. A failed call
  changes nothing. It is used to run the facade on concrete inputs.
\<close>

record Grid =
  next_ref :: nat
  connected :: "nat list"
  open_collections :: "nat list"

fun Connection_ref :: "Connection \<Rightarrow> nat" where
  "Connection_ref (ConnectionRef n) = n"

fun Collection_ref :: "Collection \<Rightarrow> nat" where
  "Collection_ref (CollectionRef n) = n"

fun Message :: "error \<Rightarrow> string" where
  "Message (GoRodsError k msg) = msg"

definition scripted ::
  "error option \<Rightarrow> error option \<Rightarrow> error option \<Rightarrow> error option \<Rightarrow> Grid Package" where
  "scripted connectFails collectionFails closeFails disconnectFails =
    \<lparr>NewConnection = (\<lambda>copts g.
        case connectFails of
          Some e \<Rightarrow> (Inl e, g)
        | None \<Rightarrow> (Inr (ConnectionRef (next_ref g)),
                   g\<lparr>next_ref := Suc (next_ref g), connected := next_ref g # connected g\<rparr>)),
     Connection_Collection = (\<lambda>con opts g.
        case collectionFails of
          Some e \<Rightarrow> (Inl e, g)
        | None \<Rightarrow> (Inr (CollectionRef (next_ref g)),
                   g\<lparr>next_ref := Suc (next_ref g),
                     open_collections := next_ref g # open_collections g\<rparr>)),
     Collection_Close = (\<lambda>col g.
        case closeFails of
          Some e \<Rightarrow> (Some e, g)
        | None \<Rightarrow> (None, g\<lparr>open_collections := removeAll (Collection_ref col) (open_collections g)\<rparr>)),
     Connection_Disconnect = (\<lambda>con g.
        case disconnectFails of
          Some e \<Rightarrow> (Some e, g)
        | None \<Rightarrow> (None, g\<lparr>connected := removeAll (Connection_ref con) (connected g)\<rparr>)),
     Error_text = Message\<rparr>"

definition grid0 :: Grid where
  "grid0 = \<lparr>next_ref = 0, connected = [], open_collections = []\<rparr>"

definition localhost :: ConnectionOptions where
  "localhost = \<lparr>Type = UserDefined, AuthType = PasswordAuth, PAMPassFile = [], PAMPassExpire = 0,
     Host = ''localhost'', Port = 1247, Zone = ''tempZone'', Username = ''rods'',
     Password = ''password'', Ticket = []\<rparr>"

definition home_rods :: CollectionOptions where
  "home_rods = \<lparr>Path = ''/tempZone/home/rods'', Recursive = False, GetRepls = False\<rparr>"

definition idle :: "Collection \<Rightarrow> Connection \<Rightarrow> Grid \<Rightarrow> Grid" where
  "idle col con g = g"

text \<open>A handler with an effect on the grid: it takes the next reference.\<close>

definition take_ref :: "Collection \<Rightarrow> Connection \<Rightarrow> Grid \<Rightarrow> Grid" where
  "take_ref col con g = g\<lparr>next_ref := Suc (next_ref g)\<rparr>"

definition rods_client :: Client where
  "rods_client = \<lparr>Options = Some localhost, ConnectErr = None\<rparr>"

definition no_such_collection :: error where
  "no_such_collection = GoRodsError NotFound ''no such collection''"

definition close_failed :: error where
  "close_failed = GoRodsError IOError ''close failed''"

definition auth_failed :: error where
  "auth_failed = GoRodsError AuthFailure ''bad password''"

section \<open>Data objects and metadata\<close>

text \<open>
  The methods of \<open>DataObj\<close> and \<open>AddMeta\<close> are called in the usage document, but their
  code is not part of the sources. The definitions of this section follow the
  specification (sections 3, 4.3 and 4.4) and keep the names of the package.
\<close>

text \<open>
  Modelled from the spec: the \<open>Meta\<close> struct, an attribute-value-unit triple (the fields
  are the ones the usage document sets).
\<close>

record Meta =
  Attribute :: string
  Value :: string
  Units :: string

text \<open>
  Modelled from the spec: a Node (section 3) with its absolute path and the metadata
  entries attached to it, and a DataObject, a Node with the bytes stored for it in the
  grid. A byte is a \<open>char\<close>, which has exactly 256 values. The session behind a node is
  left out: every operation below is the one a live session performs without an I/O
  failure.
\<close>

record Node =
  path :: string
  metas :: "Meta list"

record DataObj = Node +
  content :: "char list"

text \<open>Modelled from the spec: \<open>DataObj.Size\<close>, the number of bytes of the object.\<close>

definition Size :: "DataObj \<Rightarrow> nat" where
  "Size obj = length (content obj)"

text \<open>Modelled from the spec: \<open>DataObj.Read\<close> (\<open>read()\<close>), the whole-object read.\<close>

definition Read :: "DataObj \<Rightarrow> error + char list" where
  "Read obj = Inr (content obj)"

text \<open>
  Modelled from the spec: \<open>DataObj.ReadBytes\<close> (\<open>readRange(offset, length)\<close>). Offsets
  and lengths are unsigned byte counts; the length must be positive; a range that runs
  past the end of the object is cut to the bytes that are there, which is not an error.
\<close>

definition ReadBytes :: "DataObj \<Rightarrow> nat \<Rightarrow> nat \<Rightarrow> error + char list" where
  "ReadBytes obj pos len =
    (if len = 0 then Inl (newError OutOfRange ''length must be positive'')
     else Inr (take len (drop pos (content obj))))"

text \<open>
  Modelled from the spec: \<open>DataObj.ReadChunk\<close> (\<open>readChunked(chunkSize, visit)\<close>). The
  loop starts at a position, reads at most \<open>n\<close> bytes there, hands them to the visitor
  and goes on behind them until the position reaches the end of the object. The visitor
  is a function of a state \<open>'v\<close> of its own. The result is the visitor's final state and
  the reads made, each with its offset and its chunk, in the order they were made. A
  chunk size of zero reads nothing.
\<close>

function ReadChunk_from ::
  "char list \<Rightarrow> nat \<Rightarrow> (char list \<Rightarrow> 'v \<Rightarrow> 'v) \<Rightarrow> nat \<Rightarrow> 'v \<Rightarrow> 'v \<times> (nat \<times> char list) list" where
  "ReadChunk_from bytes n visit pos v =
    (if n = 0 \<or> length bytes \<le> pos then (v, [])
     else (let chunk = take n (drop pos bytes);
               v' = visit chunk v
           in case ReadChunk_from bytes n visit (pos + n) v' of
                (vf, reads) \<Rightarrow> (vf, (pos, chunk) # reads)))"
  by pat_completeness auto
termination
  by (relation "measure (\<lambda>(bytes, n, visit, pos, v). length bytes - pos)") auto

definition ReadChunk ::
  "DataObj \<Rightarrow> nat \<Rightarrow> (char list \<Rightarrow> 'v \<Rightarrow> 'v) \<Rightarrow> 'v \<Rightarrow> 'v \<times> (nat \<times> char list) list" where
  "ReadChunk obj n visit v = ReadChunk_from (content obj) n visit 0 v"

text \<open>
  Modelled from the spec: \<open>DataObj.Write\<close> (\<open>write(bytes)\<close>): the stored bytes are
  overwritten from offset 0, then the object is truncated to the new length.
\<close>

definition Write :: "DataObj \<Rightarrow> char list \<Rightarrow> error option \<times> DataObj" where
  "Write obj data =
    (let overwritten = data @ drop (length data) (content obj);
         truncated = take (length data) overwritten
     in (None, obj\<lparr>content := truncated\<rparr>))"

text \<open>
  Modelled from the spec: \<open>AddMeta\<close> (\<open>addMeta(node, attribute, value, unit)\<close>, result
  \<open>MetadataEntry | Error(DuplicateAVU)\<close>). Entries of one node may share an attribute,
  but not an attribute together with a value: such an addition is rejected.
\<close>

definition avu_key :: "Meta \<Rightarrow> string \<times> string" where
  "avu_key m = (Attribute m, Value m)"

definition AddMeta :: "'a Node_scheme \<Rightarrow> Meta \<Rightarrow> error + (Meta \<times> 'a Node_scheme)" where
  "AddMeta node m =
    (if avu_key m \<in> set (map avu_key (metas node))
     then Inl (newError DuplicateAVU ''attribute and value already attached'')
     else Inr (m, node\<lparr>metas := metas node @ [m]\<rparr>))"

text \<open>The object, the entry and the counting visitor of the usage document's examples.\<close>

definition hello :: DataObj where
  "hello = \<lparr>path = ''/tempZone/home/rods/hello.txt'', metas = [], content = ''Hello, World!''\<rparr>"

definition word_count :: Meta where
  "word_count = \<lparr>Attribute = ''wordCount'', Value = ''2'', Units = ''int''\<rparr>"

definition count_visit :: "char list \<Rightarrow> nat \<Rightarrow> nat" where
  "count_visit chunk k = Suc k"

section \<open>Properties of the facade\<close>

declare ReadChunk_from.simps [simp del]

lemmas step_defs = step_NewConnection_def step_Collection_def step_handler_def step_Close_def
  step_Disconnect_def

lemmas run_defs = OpenConnection_def New_def step_defs scripted_def grid0_def rods_client_def
  idle_def take_ref_def calls_def returned_def state_after_def newError_def

text \<open>
  \<open>OpenConnection\<close> and \<open>New\<close> with their steps carried out: the error, the state and the
  calls of each branch in terms of the package's own functions.
\<close>

lemma OpenConnection_unfold:
  "OpenConnection pkg cli opts handler s =
    (case ConnectErr cli of
       None \<Rightarrow>
         (case NewConnection pkg (Options cli) s of
            (Inr con, s1) \<Rightarrow>
              (case Connection_Collection pkg con opts s1 of
                 (Inl colEr, s2) \<Rightarrow>
                   (Some (newError Fatal (''Can't open new connection: '' @ Error_text pkg colEr)),
                    s2,
                    [CallNewConnection (Options cli), CallCollection con opts])
               | (Inr col, s2) \<Rightarrow>
                   (case Collection_Close pkg col (handler col con s2) of
                      (Some er, s4) \<Rightarrow>
                        (Some er, s4,
                         [CallNewConnection (Options cli), CallCollection con opts,
                          CallHandler col con, CallClose col])
                    | (None, s4) \<Rightarrow>
                        (fst (Connection_Disconnect pkg con s4),
                         snd (Connection_Disconnect pkg con s4),
                         [CallNewConnection (Options cli), CallCollection con opts,
                          CallHandler col con, CallClose col, CallDisconnect con])))
          | (Inl err, s1) \<Rightarrow>
              (Some (newError Fatal (''Can't open new connection: '' @ Error_text pkg err)),
               s1,
               [CallNewConnection (Options cli)]))
     | Some connectErr \<Rightarrow>
         (Some (newError Fatal (''Can't open new connection: '' @ Error_text pkg connectErr)),
          s,
          []))"
  by (simp add: OpenConnection_def step_defs Let_def split: option.splits prod.splits sum.splits)

lemma New_unfold:
  "New pkg opts s =
    (case NewConnection pkg (Some opts) s of
       (Inl err, s1) \<Rightarrow> ((None, Some err), s1, [CallNewConnection (Some opts)])
     | (Inr con, s1) \<Rightarrow>
         ((Some \<lparr>Options = Some opts, ConnectErr = None\<rparr>, None), s1,
          [CallNewConnection (Some opts)]))"
  by (simp add: New_def step_defs Let_def split: prod.splits sum.splits)

text \<open>The branch that reports \<open>cli.ConnectErr\<close> is the only one that returns without a call.\<close>

lemma OpenConnection_no_call_iff:
  "calls (OpenConnection pkg cli opts handler s) = [] \<longleftrightarrow> ConnectErr cli \<noteq> None"
  by (simp add: OpenConnection_unfold calls_def split: option.splits prod.splits sum.splits)

text \<open>
  C1. The claim: on every exit path of \<open>OpenConnection\<close> the collection is closed and the
  session disconnected before it returns. The code returns early on two paths without
  calling \<open>Disconnect\<close>. Run against a grid where only \<open>Collection.Close\<close> fails,
  \<open>OpenConnection\<close> returns the error of \<open>Close\<close> after four calls, none of them
  \<open>Disconnect\<close>, and session 0 is still connected. Run against a grid where only
  \<open>Connection.Collection\<close> fails, it returns after two calls, and session 0 is still
  connected.
\<close>

theorem OpenConnection_early_return_skips_Disconnect:
  "returned (OpenConnection (scripted None None (Some close_failed) None) rods_client home_rods idle grid0)
     = Some close_failed
   \<and> calls (OpenConnection (scripted None None (Some close_failed) None) rods_client home_rods idle grid0)
     = [CallNewConnection (Some localhost), CallCollection (ConnectionRef 0) home_rods,
        CallHandler (CollectionRef 1) (ConnectionRef 0), CallClose (CollectionRef 1)]
   \<and> connected (state_after
        (OpenConnection (scripted None None (Some close_failed) None) rods_client home_rods idle grid0))
     = [0]
   \<and> calls (OpenConnection (scripted None (Some no_such_collection) None None) rods_client home_rods idle grid0)
     = [CallNewConnection (Some localhost), CallCollection (ConnectionRef 0) home_rods]
   \<and> connected (state_after
        (OpenConnection (scripted None (Some no_such_collection) None None) rods_client home_rods idle grid0))
     = [0]"
  by (simp add: run_defs)

text \<open>
  C2, as amended. Every failing call that \<open>OpenConnection\<close> makes surfaces to the caller
  as an error: \<open>OpenConnection\<close> returns \<open>nil\<close> exactly when \<open>ConnectErr\<close> is \<open>nil\<close> and
  \<open>NewConnection\<close>, \<open>Connection.Collection\<close>, \<open>Collection.Close\<close> and
  \<open>Connection.Disconnect\<close> all succeed. An error of \<open>Close\<close> or of \<open>Disconnect\<close> is
  returned as it is, and an error of \<open>NewConnection\<close> inside a new \<open>Fatal\<close> error. When
  \<open>Connection.Collection\<close> fails with \<open>colEr\<close>, the caller does not get \<open>colEr\<close> itself
  but a new error of kind \<open>Fatal\<close> whose message ends with the text of \<open>colEr\<close>; the
  state is the one the failed call left, so the handler has not run.
\<close>

theorem OpenConnection_Collection_error_wrapped:
  "(returned (OpenConnection pkg cli opts handler s) = None \<longleftrightarrow>
      ConnectErr cli = None
      \<and> (\<exists>con s1 col s2.
            NewConnection pkg (Options cli) s = (Inr con, s1)
            \<and> Connection_Collection pkg con opts s1 = (Inr col, s2)
            \<and> fst (Collection_Close pkg col (handler col con s2)) = None
            \<and> fst (Connection_Disconnect pkg con
                     (snd (Collection_Close pkg col (handler col con s2)))) = None))
   \<and> (\<forall>err s1.
         ConnectErr cli = None \<and> NewConnection pkg (Options cli) s = (Inl err, s1) \<longrightarrow>
           returned (OpenConnection pkg cli opts handler s)
             = Some (newError Fatal (''Can't open new connection: '' @ Error_text pkg err)))
   \<and> (\<forall>con s1 col s2 er.
         ConnectErr cli = None \<and> NewConnection pkg (Options cli) s = (Inr con, s1)
         \<and> Connection_Collection pkg con opts s1 = (Inr col, s2)
         \<and> fst (Collection_Close pkg col (handler col con s2)) = Some er \<longrightarrow>
           returned (OpenConnection pkg cli opts handler s) = Some er)
   \<and> (\<forall>con s1 col s2 er.
         ConnectErr cli = None \<and> NewConnection pkg (Options cli) s = (Inr con, s1)
         \<and> Connection_Collection pkg con opts s1 = (Inr col, s2)
         \<and> fst (Collection_Close pkg col (handler col con s2)) = None
         \<and> fst (Connection_Disconnect pkg con
                  (snd (Collection_Close pkg col (handler col con s2)))) = Some er \<longrightarrow>
           returned (OpenConnection pkg cli opts handler s) = Some er)
   \<and> (\<forall>con s1 colEr s2.
         ConnectErr cli = None \<and> NewConnection pkg (Options cli) s = (Inr con, s1)
         \<and> Connection_Collection pkg con opts s1 = (Inl colEr, s2) \<longrightarrow>
           (\<exists>prefix. returned (OpenConnection pkg cli opts handler s)
                       = Some (newError Fatal (prefix @ Error_text pkg colEr)))
           \<and> ErrorKind_of (the (returned (OpenConnection pkg cli opts handler s))) = Fatal
           \<and> state_after (OpenConnection pkg cli opts handler s) = s2
           \<and> handler_calls (calls (OpenConnection pkg cli opts handler s)) = [])"
proof (intro conjI allI impI)
  show "returned (OpenConnection pkg cli opts handler s) = None \<longleftrightarrow>
      ConnectErr cli = None
      \<and> (\<exists>con s1 col s2.
            NewConnection pkg (Options cli) s = (Inr con, s1)
            \<and> Connection_Collection pkg con opts s1 = (Inr col, s2)
            \<and> fst (Collection_Close pkg col (handler col con s2)) = None
            \<and> fst (Connection_Disconnect pkg con
                     (snd (Collection_Close pkg col (handler col con s2)))) = None)"
    by (auto simp add: OpenConnection_unfold returned_def
        split: option.splits prod.splits sum.splits)
next
  fix err s1
  assume "ConnectErr cli = None \<and> NewConnection pkg (Options cli) s = (Inl err, s1)"
  then show "returned (OpenConnection pkg cli opts handler s)
      = Some (newError Fatal (''Can't open new connection: '' @ Error_text pkg err))"
    by (simp add: OpenConnection_unfold returned_def)
next
  fix con s1 col s2 er
  assume "ConnectErr cli = None \<and> NewConnection pkg (Options cli) s = (Inr con, s1)
         \<and> Connection_Collection pkg con opts s1 = (Inr col, s2)
         \<and> fst (Collection_Close pkg col (handler col con s2)) = Some er"
  then show "returned (OpenConnection pkg cli opts handler s) = Some er"
    by (auto simp add: OpenConnection_unfold returned_def split: prod.splits)
next
  fix con s1 col s2 er
  assume "ConnectErr cli = None \<and> NewConnection pkg (Options cli) s = (Inr con, s1)
         \<and> Connection_Collection pkg con opts s1 = (Inr col, s2)
         \<and> fst (Collection_Close pkg col (handler col con s2)) = None
         \<and> fst (Connection_Disconnect pkg con
                  (snd (Collection_Close pkg col (handler col con s2)))) = Some er"
  then show "returned (OpenConnection pkg cli opts handler s) = Some er"
    by (auto simp add: OpenConnection_unfold returned_def split: prod.splits)
next
  fix con s1 colEr s2
  assume a: "ConnectErr cli = None \<and> NewConnection pkg (Options cli) s = (Inr con, s1)
         \<and> Connection_Collection pkg con opts s1 = (Inl colEr, s2)"
  then have r: "OpenConnection pkg cli opts handler s
      = (Some (newError Fatal (''Can't open new connection: '' @ Error_text pkg colEr)),
         s2, [CallNewConnection (Options cli), CallCollection con opts])"
    by (simp add: OpenConnection_unfold)
  show "\<exists>prefix. returned (OpenConnection pkg cli opts handler s)
                   = Some (newError Fatal (prefix @ Error_text pkg colEr))"
    unfolding r returned_def fst_conv by (rule exI [of _ "''Can't open new connection: ''"]) (rule refl)
  show "ErrorKind_of (the (returned (OpenConnection pkg cli opts handler s))) = Fatal"
    by (simp add: r returned_def newError_def)
  show "state_after (OpenConnection pkg cli opts handler s) = s2"
    by (simp add: r state_after_def)
  show "handler_calls (calls (OpenConnection pkg cli opts handler s)) = []"
    by (simp add: r calls_def)
qed

text \<open>
  On a grid where only opening the collection fails, with \<open>no_such_collection\<close>: the
  caller gets a \<open>Fatal\<close> error that ends with its text, and the grid is as the failed call
  left it, the reference a handler would take not taken.
\<close>

theorem OpenConnection_Collection_error_wrapped_witness:
  "ConnectErr rods_client = None
   \<and> NewConnection (scripted None (Some no_such_collection) None None) (Options rods_client) grid0
       = (Inr (ConnectionRef 0), \<lparr>next_ref = 1, connected = [0], open_collections = []\<rparr>)
   \<and> Connection_Collection (scripted None (Some no_such_collection) None None) (ConnectionRef 0) home_rods
        \<lparr>next_ref = 1, connected = [0], open_collections = []\<rparr>
       = (Inl no_such_collection, \<lparr>next_ref = 1, connected = [0], open_collections = []\<rparr>)
   \<and> returned (OpenConnection (scripted None (Some no_such_collection) None None) rods_client home_rods
        take_ref grid0)
       = Some (GoRodsError Fatal ''Can't open new connection: no such collection'')
   \<and> state_after (OpenConnection (scripted None (Some no_such_collection) None None) rods_client home_rods
        take_ref grid0)
       = \<lparr>next_ref = 1, connected = [0], open_collections = []\<rparr>
   \<and> returned (OpenConnection (scripted None None None None) rods_client home_rods take_ref grid0) = None
   \<and> returned (OpenConnection (scripted None None (Some close_failed) None) rods_client home_rods
        take_ref grid0) = Some close_failed"
  using OpenConnection_Collection_error_wrapped [of "scripted None (Some no_such_collection) None None"
      rods_client home_rods take_ref grid0]
  by (simp add: run_defs no_such_collection_def)

text \<open>
  C2 as stated fails: when opening the collection fails with the \<open>NotFound\<close> error
  \<open>no_such_collection\<close>, the caller does not get that error but a \<open>Fatal\<close> one.
\<close>

theorem OpenConnection_Collection_error_replaced:
  "returned (OpenConnection (scripted None (Some no_such_collection) None None) rods_client home_rods idle grid0)
     = Some (GoRodsError Fatal ''Can't open new connection: no such collection'')
   \<and> returned (OpenConnection (scripted None (Some no_such_collection) None None) rods_client home_rods idle grid0)
     \<noteq> Some no_such_collection"
  by (simp add: run_defs no_such_collection_def)

text \<open>
  C8, as amended. On a client whose \<open>ConnectErr\<close> is \<open>nil\<close>, a call of \<open>OpenConnection\<close>
  calls \<open>NewConnection\<close> exactly once, as its first step, in the state it was called in
  and with the client's stored options, and every connection it uses afterwards (to open
  the collection, for the handler, to disconnect) is the one that call returned. The
  state it leaves is the one that this \<open>NewConnection\<close> and the calls on its connection
  produce, one after the other: nothing else is opened. On a client whose \<open>ConnectErr\<close>
  is set it makes no call at all, leaves the state as it is and returns a \<open>Fatal\<close> error
  with the text of \<open>ConnectErr\<close>.
\<close>

theorem OpenConnection_own_connection:
  "(ConnectErr cli = None \<longrightarrow>
      new_connection_calls (calls (OpenConnection pkg cli opts handler s)) = [Options cli]
      \<and> hd (calls (OpenConnection pkg cli opts handler s)) = CallNewConnection (Options cli)
      \<and> (\<forall>con \<in> set (connections_used (calls (OpenConnection pkg cli opts handler s))).
            fst (NewConnection pkg (Options cli) s) = Inr con)
      \<and> state_after (OpenConnection pkg cli opts handler s)
          = (case NewConnection pkg (Options cli) s of
               (Inl err, s1) \<Rightarrow> s1
             | (Inr con, s1) \<Rightarrow>
                 (case Connection_Collection pkg con opts s1 of
                    (Inl colEr, s2) \<Rightarrow> s2
                  | (Inr col, s2) \<Rightarrow>
                      (case Collection_Close pkg col (handler col con s2) of
                         (Some er, s4) \<Rightarrow> s4
                       | (None, s4) \<Rightarrow> snd (Connection_Disconnect pkg con s4)))))
   \<and> (\<forall>connectErr. ConnectErr cli = Some connectErr \<longrightarrow>
         calls (OpenConnection pkg cli opts handler s) = []
         \<and> state_after (OpenConnection pkg cli opts handler s) = s
         \<and> returned (OpenConnection pkg cli opts handler s)
             = Some (newError Fatal (''Can't open new connection: '' @ Error_text pkg connectErr)))"
  by (auto simp add: OpenConnection_unfold calls_def state_after_def returned_def
      split: option.splits prod.splits sum.splits)

text \<open>
  Two calls in a row on the scripted grid, with a handler that takes a reference: the
  first works on session 0 and leaves no session connected and no collection open, the
  second, run in the state the first left, works on session 3. A client with
  \<open>ConnectErr\<close> set gets the \<open>Fatal\<close> error.
\<close>

theorem OpenConnection_own_connection_witness:
  "ConnectErr rods_client = None
   \<and> new_connection_calls (calls (OpenConnection (scripted None None None None) rods_client home_rods
        take_ref grid0))
       = [Some localhost]
   \<and> connections_used (calls (OpenConnection (scripted None None None None) rods_client home_rods
        take_ref grid0))
       = [ConnectionRef 0, ConnectionRef 0, ConnectionRef 0]
   \<and> state_after (OpenConnection (scripted None None None None) rods_client home_rods take_ref grid0)
       = \<lparr>next_ref = 3, connected = [], open_collections = []\<rparr>
   \<and> connections_used (calls (OpenConnection (scripted None None None None) rods_client home_rods take_ref
        (state_after (OpenConnection (scripted None None None None) rods_client home_rods take_ref grid0))))
       = [ConnectionRef 3, ConnectionRef 3, ConnectionRef 3]
   \<and> ConnectErr \<lparr>Options = Some localhost, ConnectErr = Some auth_failed\<rparr> = Some auth_failed
   \<and> returned (OpenConnection (scripted None None None None)
        \<lparr>Options = Some localhost, ConnectErr = Some auth_failed\<rparr> home_rods take_ref grid0)
       = Some (GoRodsError Fatal ''Can't open new connection: bad password'')"
  using OpenConnection_own_connection [of rods_client "scripted None None None None" home_rods take_ref grid0]
    OpenConnection_own_connection [of "\<lparr>Options = Some localhost, ConnectErr = Some auth_failed\<rparr>"
      "scripted None None None None" home_rods take_ref grid0]
  by (simp add: run_defs auth_failed_def)

text \<open>
  C8 as stated fails: a client whose \<open>ConnectErr\<close> is set gets no session. On a grid where
  every call would succeed, \<open>OpenConnection\<close> makes no call, leaves the grid as it was
  and returns a \<open>Fatal\<close> error.
\<close>

theorem OpenConnection_ConnectErr_no_session:
  "calls (OpenConnection (scripted None None None None)
            \<lparr>Options = Some localhost, ConnectErr = Some auth_failed\<rparr> home_rods idle grid0) = []
   \<and> state_after (OpenConnection (scripted None None None None)
            \<lparr>Options = Some localhost, ConnectErr = Some auth_failed\<rparr> home_rods idle grid0) = grid0
   \<and> returned (OpenConnection (scripted None None None None)
            \<lparr>Options = Some localhost, ConnectErr = Some auth_failed\<rparr> home_rods idle grid0)
       = Some (GoRodsError Fatal ''Can't open new connection: bad password'')
   \<and> new_connection_calls (calls (OpenConnection (scripted None None None None)
            \<lparr>Options = Some localhost, ConnectErr = Some auth_failed\<rparr> home_rods idle grid0))
       \<noteq> [Some localhost]"
  by (simp add: run_defs auth_failed_def)

text \<open>
  C9. \<open>New opts\<close> returns either a client together with a \<open>nil\<close> error, and then the
  client's \<open>ConnectErr\<close> is \<open>nil\<close> and its options are \<open>opts\<close>, or a \<open>nil\<close> client
  together with an error. So for a client that \<open>New\<close> returned, \<open>OpenConnection\<close>,
  whatever the package does and in whatever state, never takes its last branch, the one
  that reports \<open>cli.ConnectErr\<close> and makes no call: its first call is \<open>NewConnection\<close>.
\<close>

theorem New_client_or_error:
  "((\<exists>cli. returned (New pkg opts s) = (Some cli, None)
            \<and> ConnectErr cli = None \<and> Options cli = Some opts)
    \<or> (\<exists>err. returned (New pkg opts s) = (None, Some err)))
   \<and> (\<forall>cli. fst (returned (New pkg opts s)) = Some cli \<longrightarrow>
         ConnectErr cli = None
         \<and> (\<forall>pkg' copts handler s'.
               calls (OpenConnection pkg' cli copts handler s') \<noteq> []
               \<and> hd (calls (OpenConnection pkg' cli copts handler s')) = CallNewConnection (Some opts)))"
  by (auto simp add: New_unfold OpenConnection_unfold calls_def returned_def
      split: option.splits prod.splits sum.splits)

theorem New_client_or_error_witness:
  "returned (New (scripted None None None None) localhost grid0) = (Some rods_client, None)
   \<and> ConnectErr rods_client = None
   \<and> calls (OpenConnection (scripted None (Some no_such_collection) None None) rods_client home_rods idle grid0)
       = [CallNewConnection (Some localhost), CallCollection (ConnectionRef 0) home_rods]
   \<and> returned (New (scripted (Some auth_failed) None None None) localhost grid0) = (None, Some auth_failed)"
  using New_client_or_error [of "scripted None None None None" localhost grid0]
  by (simp add: run_defs)

text \<open>
  C10. When \<open>NewConnection\<close> and \<open>Connection.Collection\<close> both succeed, \<open>OpenConnection\<close>
  calls the handler exactly once, with the collection and the connection they returned,
  in the state \<open>Collection\<close> left. After the handler it calls \<open>Collection.Close\<close>, in the
  state the handler left, and \<open>Connection.Disconnect\<close> only after \<open>Close\<close>, in the state
  \<open>Close\<close> left, namely when \<open>Close\<close> returned no error. The state it leaves is the one
  \<open>Disconnect\<close> left, or the one \<open>Close\<close> left when \<open>Close\<close> failed. It returns \<open>nil\<close>
  exactly when \<open>Close\<close> and then \<open>Disconnect\<close> returned no error.
\<close>

theorem OpenConnection_handler_then_teardown:
  assumes "ConnectErr cli = None"
    and "NewConnection pkg (Options cli) s = (Inr con, s1)"
    and "Connection_Collection pkg con opts s1 = (Inr col, s2)"
  shows "let r = OpenConnection pkg cli opts handler s;
             closed = Collection_Close pkg col (handler col con s2);
             disconnected = Connection_Disconnect pkg con (snd closed)
         in handler_calls (calls r) = [(col, con)]
          \<and> calls r = [CallNewConnection (Options cli), CallCollection con opts,
                        CallHandler col con, CallClose col]
                       @ (if fst closed = None then [CallDisconnect con] else [])
          \<and> (returned r = None \<longleftrightarrow> fst closed = None \<and> fst disconnected = None)
          \<and> state_after r = (if fst closed = None then snd disconnected else snd closed)
          \<and> returned r = (if fst closed = None then fst disconnected else fst closed)"
  using assms
  by (simp add: OpenConnection_unfold calls_def returned_def state_after_def Let_def
      split: option.splits prod.splits)

text \<open>
  On the grid where every call succeeds, with a handler that takes a reference: five
  calls, the handler's reference taken once, no session connected and no collection open
  at the end.
\<close>

theorem OpenConnection_handler_then_teardown_witness:
  "ConnectErr rods_client = None
   \<and> NewConnection (scripted None None None None) (Options rods_client) grid0
       = (Inr (ConnectionRef 0), \<lparr>next_ref = 1, connected = [0], open_collections = []\<rparr>)
   \<and> Connection_Collection (scripted None None None None) (ConnectionRef 0) home_rods
        \<lparr>next_ref = 1, connected = [0], open_collections = []\<rparr>
       = (Inr (CollectionRef 1), \<lparr>next_ref = 2, connected = [0], open_collections = [1]\<rparr>)
   \<and> calls (OpenConnection (scripted None None None None) rods_client home_rods take_ref grid0)
       = [CallNewConnection (Some localhost), CallCollection (ConnectionRef 0) home_rods,
          CallHandler (CollectionRef 1) (ConnectionRef 0), CallClose (CollectionRef 1),
          CallDisconnect (ConnectionRef 0)]
   \<and> state_after (OpenConnection (scripted None None None None) rods_client home_rods take_ref grid0)
       = \<lparr>next_ref = 3, connected = [], open_collections = []\<rparr>
   \<and> returned (OpenConnection (scripted None None None None) rods_client home_rods take_ref grid0) = None"
  using OpenConnection_handler_then_teardown [of rods_client "scripted None None None None" grid0
      "ConnectionRef 0" "\<lparr>next_ref = 1, connected = [0], open_collections = []\<rparr>" home_rods
      "CollectionRef 1" "\<lparr>next_ref = 2, connected = [0], open_collections = [1]\<rparr>" take_ref]
  by (simp add: run_defs Let_def)

section \<open>Properties of data objects and metadata\<close>

subsection \<open>The chunk loop\<close>

text \<open>
  The loop stops at once at or behind the end of the object, and otherwise makes one read
  and goes on behind it. The four facts after these two are proved along the loop's own
  recursion: how many reads it makes, what the i-th read is, that the visitor's final
  state is the fold of the visitor over the chunks read, and that the chunks put
  together are the bytes from the starting position on.
\<close>

lemma ReadChunk_from_stop:
  "n = 0 \<or> length bytes \<le> pos \<Longrightarrow> ReadChunk_from bytes n visit pos v = (v, [])"
  by (simp add: ReadChunk_from.simps [of bytes n visit pos v])

lemma ReadChunk_from_step:
  "0 < n \<Longrightarrow> pos < length bytes \<Longrightarrow>
     ReadChunk_from bytes n visit pos v
       = (fst (ReadChunk_from bytes n visit (pos + n) (visit (take n (drop pos bytes)) v)),
          (pos, take n (drop pos bytes))
            # snd (ReadChunk_from bytes n visit (pos + n) (visit (take n (drop pos bytes)) v)))"
  by (simp add: ReadChunk_from.simps [of bytes n visit pos v] Let_def case_prod_beta)

lemma ReadChunk_from_length:
  "0 < n \<Longrightarrow>
     length (snd (ReadChunk_from bytes n visit pos v)) = (length bytes - pos + n - 1) div n"
proof (induction bytes n visit pos v rule: ReadChunk_from.induct)
  case (1 bytes n visit pos v)
  show ?case
  proof (cases "length bytes \<le> pos")
    case True
    with 1(2) show ?thesis by (simp add: ReadChunk_from.simps [of bytes n visit pos v])
  next
    case False
    let ?v' = "visit (take n (drop pos bytes)) v"
    have ih: "length (snd (ReadChunk_from bytes n visit (pos + n) ?v'))
                = (length bytes - (pos + n) + n - 1) div n"
      using 1 False by simp
    have step: "snd (ReadChunk_from bytes n visit pos v)
                  = (pos, take n (drop pos bytes)) # snd (ReadChunk_from bytes n visit (pos + n) ?v')"
      using False 1(2)
      by (simp add: ReadChunk_from.simps [of bytes n visit pos v] Let_def split: prod.splits)
    have arith: "Suc ((length bytes - (pos + n) + n - 1) div n)
                   = (length bytes - pos + n - 1) div n"
    proof (cases "length bytes \<le> pos + n")
      case True
      then have a: "(length bytes - (pos + n) + n - 1) div n = 0"
        using 1(2) by simp
      have "n \<le> length bytes - pos + n - 1" "length bytes - pos + n - 1 < 2 * n"
        using True False by auto
      then have "(length bytes - pos + n - 1) div n = 1"
        by (metis Suc_1 div_nat_eqI mult.commute mult_Suc_right nat_mult_1_right)
      with a show ?thesis by simp
    next
      case False
      define k where "k = length bytes - (pos + n) + n - 1"
      have "length bytes - pos + n - 1 = k + n"
        using False by (simp add: k_def)
      moreover have "(k + n) div n = Suc (k div n)"
        using 1(2) div_add_self2 [of n k] by simp
      ultimately show ?thesis
        unfolding k_def by presburger
    qed
    show ?thesis using step ih arith by simp
  qed
qed

lemma ReadChunk_from_nth:
  "0 < n \<Longrightarrow> i < length (snd (ReadChunk_from bytes n visit pos v)) \<Longrightarrow>
     snd (ReadChunk_from bytes n visit pos v) ! i
       = (pos + i * n, take n (drop (pos + i * n) bytes))"
proof (induction bytes n visit pos v arbitrary: i rule: ReadChunk_from.induct)
  case (1 bytes n visit pos v)
  show ?case
  proof (cases "length bytes \<le> pos")
    case True
    with 1(3) show ?thesis by (simp add: ReadChunk_from.simps [of bytes n visit pos v])
  next
    case False
    let ?v' = "visit (take n (drop pos bytes)) v"
    have step: "snd (ReadChunk_from bytes n visit pos v)
                  = (pos, take n (drop pos bytes)) # snd (ReadChunk_from bytes n visit (pos + n) ?v')"
      using False 1(2)
      by (simp add: ReadChunk_from.simps [of bytes n visit pos v] Let_def split: prod.splits)
    show ?thesis
    proof (cases i)
      case 0
      then show ?thesis using step by simp
    next
      case (Suc j)
      then have "j < length (snd (ReadChunk_from bytes n visit (pos + n) ?v'))"
        using 1(3) step by simp
      then have "snd (ReadChunk_from bytes n visit (pos + n) ?v') ! j
                   = (pos + n + j * n, take n (drop (pos + n + j * n) bytes))"
        using 1(1) [of "take n (drop pos bytes)" ?v' j] False 1(2) by simp
      then show ?thesis using step Suc by (simp add: add.assoc)
    qed
  qed
qed

lemma ReadChunk_from_visits:
  "fst (ReadChunk_from bytes n visit pos v)
     = fold (\<lambda>r. visit (snd r)) (snd (ReadChunk_from bytes n visit pos v)) v"
proof (induction bytes n visit pos v rule: ReadChunk_from.induct)
  case (1 bytes n visit pos v)
  show ?case
  proof (cases "n = 0 \<or> length bytes \<le> pos")
    case True
    then show ?thesis by (simp add: ReadChunk_from_stop)
  next
    case False
    then show ?thesis
      using 1 [of "take n (drop pos bytes)" "visit (take n (drop pos bytes)) v"]
      by (simp add: ReadChunk_from_step)
  qed
qed

lemma ReadChunk_from_concat:
  "0 < n \<Longrightarrow> concat (map snd (snd (ReadChunk_from bytes n visit pos v))) = drop pos bytes"
proof (induction bytes n visit pos v rule: ReadChunk_from.induct)
  case (1 bytes n visit pos v)
  show ?case
  proof (cases "length bytes \<le> pos")
    case True
    then show ?thesis by (simp add: ReadChunk_from_stop)
  next
    case False
    have "take n (drop pos bytes) @ drop (pos + n) bytes = drop pos bytes"
      by (metis add.commute append_take_drop_id drop_drop)
    then show ?thesis
      using False 1(2) 1(1) [of "take n (drop pos bytes)" "visit (take n (drop pos bytes)) v"]
      by (simp add: ReadChunk_from_step)
  qed
qed

lemma fold_count_visit: "fold (\<lambda>r. count_visit (snd r)) xs k = length xs + k"
  by (induction xs arbitrary: k) (simp_all add: count_visit_def)

lemma chunk_full:
  assumes "0 < n" and "Suc i < (S + n - 1) div n"
  shows "Suc i * n \<le> (S::nat)"
proof -
  have "Suc (Suc i) \<le> (S + n - 1) div n" using assms(2) by simp
  then have "Suc (Suc i) * n \<le> S + n - 1"
    using assms(1) by (simp add: less_eq_div_iff_mult_less_eq)
  then show ?thesis using assms(1) by simp
qed

lemma chunk_started:
  assumes "0 < n" and "i < (S + n - 1) div n"
  shows "i * n < (S::nat)"
proof -
  have "Suc i \<le> (S + n - 1) div n" using assms(2) by simp
  then have "Suc i * n \<le> S + n - 1"
    using assms(1) by (simp add: less_eq_div_iff_mult_less_eq)
  then show ?thesis using assms(1) by simp
qed

subsection \<open>The claims\<close>

text \<open>
  C4. For an object of size S, a positive length and a range that runs past the end of
  the object (\<open>S < pos + len\<close>), \<open>ReadBytes\<close> returns no error but the bytes from \<open>pos\<close>
  to the end of the object. Their number is S - pos in the unsigned arithmetic of the
  specification; so from an offset inside the object or at its end, offset and bytes
  returned add up to S, and from an offset behind the end nothing is returned.
\<close>

theorem ReadBytes_truncates:
  assumes "0 < len" and "Size obj < pos + len"
  shows "ReadBytes obj pos len = Inr (drop pos (content obj))
         \<and> length (drop pos (content obj)) = Size obj - pos
         \<and> (pos \<le> Size obj \<longrightarrow> pos + length (drop pos (content obj)) = Size obj)"
  using assms by (simp add: ReadBytes_def Size_def)

text \<open>Ten bytes asked for at offset 7 of the 13 bytes \<open>Hello, World!\<close>: the six bytes \<open>World!\<close>.\<close>

theorem ReadBytes_truncates_witness:
  "(0::nat) < 10 \<and> Size hello < 7 + 10 \<and> Size hello = 13
   \<and> ReadBytes hello 7 10 = Inr ''World!'' \<and> length ''World!'' = Size hello - 7"
  using ReadBytes_truncates [of 10 hello 7] by (simp add: hello_def Size_def)

text \<open>
  C5. For an object of size S and a positive chunk size n, \<open>ReadChunk\<close> makes
  \<open>(S + n - 1) div n\<close> reads, the ceiling of S / n. The i-th read is at offset \<open>i * n\<close> and
  holds the \<open>n\<close> bytes found there, fewer at the end of the object: every chunk is
  non-empty and at most \<open>n\<close> bytes long, and every chunk but the last is exactly \<open>n\<close>
  bytes long. The offsets are strictly increasing, and the chunks in order make up the
  whole content. The visitor's final state is the fold of the visitor over the chunks in
  that order, so it is invoked once per chunk: a visitor that counts its invocations
  ends at the ceiling of S / n. \<open>ReadChunk\<close> is a total function, so the loop ends after
  the last chunk.
\<close>

theorem ReadChunk_chunks:
  assumes "0 < n"
  shows "length (snd (ReadChunk obj n visit v)) = (Size obj + n - 1) div n
     \<and> (\<forall>i < length (snd (ReadChunk obj n visit v)).
           snd (ReadChunk obj n visit v) ! i = (i * n, take n (drop (i * n) (content obj)))
           \<and> 0 < length (snd (snd (ReadChunk obj n visit v) ! i))
           \<and> length (snd (snd (ReadChunk obj n visit v) ! i)) \<le> n
           \<and> (Suc i < length (snd (ReadChunk obj n visit v)) \<longrightarrow>
                length (snd (snd (ReadChunk obj n visit v) ! i)) = n))
     \<and> sorted_wrt (<) (map fst (snd (ReadChunk obj n visit v)))
     \<and> concat (map snd (snd (ReadChunk obj n visit v))) = content obj
     \<and> fst (ReadChunk obj n visit v) = fold (\<lambda>r. visit (snd r)) (snd (ReadChunk obj n visit v)) v
     \<and> fst (ReadChunk obj n count_visit 0) = (Size obj + n - 1) div n"
proof -
  let ?reads = "snd (ReadChunk obj n visit v)"
  have len: "length ?reads = (Size obj + n - 1) div n"
    using assms ReadChunk_from_length [of n "content obj" visit 0 v]
    by (simp add: ReadChunk_def Size_def)
  have nth: "?reads ! i = (i * n, take n (drop (i * n) (content obj)))" if "i < length ?reads" for i
    using that assms ReadChunk_from_nth [of n i "content obj" visit 0 v]
    by (simp add: ReadChunk_def)
  have each: "?reads ! i = (i * n, take n (drop (i * n) (content obj)))
           \<and> 0 < length (snd (?reads ! i))
           \<and> length (snd (?reads ! i)) \<le> n
           \<and> (Suc i < length ?reads \<longrightarrow> length (snd (?reads ! i)) = n)" if i: "i < length ?reads" for i
  proof -
    have a: "i * n < Size obj" using chunk_started [OF assms] i len by simp
    have b: "Suc i * n \<le> Size obj" if "Suc i < length ?reads"
      using chunk_full [OF assms] that len by simp
    have c: "length (snd (?reads ! i)) = min n (Size obj - i * n)"
      using nth [OF i] by (simp add: Size_def min.commute)
    show ?thesis using nth [OF i] a b c assms by auto
  qed
  have sorted: "sorted_wrt (<) (map fst ?reads)"
  proof -
    have "map fst ?reads = map (\<lambda>i. i * n) [0..<length ?reads]"
      by (rule nth_equalityI) (simp_all add: nth)
    moreover have "sorted_wrt (<) (map (\<lambda>i. i * n) [0..<length ?reads])"
      using assms by (simp add: sorted_wrt_map sorted_wrt_iff_nth_less)
    ultimately show ?thesis by simp
  qed
  have cat: "concat (map snd ?reads) = content obj"
    using assms ReadChunk_from_concat [of n "content obj" visit 0 v] by (simp add: ReadChunk_def)
  have vis: "fst (ReadChunk obj n visit v) = fold (\<lambda>r. visit (snd r)) ?reads v"
    using ReadChunk_from_visits [of "content obj" n visit 0 v] by (simp add: ReadChunk_def)
  have cnt: "fst (ReadChunk obj n count_visit 0) = (Size obj + n - 1) div n"
    using ReadChunk_from_visits [of "content obj" n count_visit 0 0]
      ReadChunk_from_length [of n "content obj" count_visit 0 0] assms
    by (simp add: ReadChunk_def fold_count_visit Size_def)
  show ?thesis using len each sorted cat vis cnt by blast
qed

text \<open>The 13 bytes of \<open>Hello, World!\<close> in chunks of 5: three reads, the last of 3 bytes.\<close>

theorem ReadChunk_chunks_witness:
  "(0::nat) < 5 \<and> Size hello = 13
   \<and> ReadChunk hello 5 count_visit 0 = (3, [(0, ''Hello''), (5, '', Wor''), (10, ''ld!'')])
   \<and> length (snd (ReadChunk hello 5 count_visit 0)) = (Size hello + 5 - 1) div 5"
  using ReadChunk_chunks [of 5 hello count_visit 0]
  by (simp add: hello_def Size_def ReadChunk_def ReadChunk_from.simps count_visit_def)

text \<open>
  C6. Writing a non-empty byte sequence to a data object succeeds, and a whole-object
  read of the object it leaves returns exactly that sequence, whatever the object held
  before.
\<close>

theorem Write_then_Read:
  assumes "data \<noteq> []"
  shows "fst (Write obj data) = None \<and> Read (snd (Write obj data)) = Inr data"
  using assms by (simp add: Write_def Read_def Let_def)

theorem Write_then_Read_witness:
  "''Hi'' \<noteq> [] \<and> fst (Write hello ''Hi'') = None \<and> Read (snd (Write hello ''Hi'')) = Inr ''Hi''"
  using Write_then_Read [of "''Hi''" hello] by simp

text \<open>
  C7. An entry whose attribute and value are already attached to the node is rejected
  with \<open>DuplicateAVU\<close>. In particular, once an entry has been added, adding any entry
  with the same attribute and value to the resulting node, whatever its unit, is
  rejected. And if no two entries of a node share attribute and value, the same holds of
  the node an addition returns: \<open>AddMeta\<close> never creates a duplicate pair.
\<close>

theorem AddMeta_rejects_duplicate:
  "(avu_key m \<in> set (map avu_key (metas node)) \<longrightarrow>
      (\<exists>msg. AddMeta node m = Inl (GoRodsError DuplicateAVU msg)))
   \<and> (AddMeta node m = Inr (e, node') \<longrightarrow>
        (\<forall>m'. avu_key m' = avu_key m \<longrightarrow>
           (\<exists>msg. AddMeta node' m' = Inl (GoRodsError DuplicateAVU msg))))
   \<and> (distinct (map avu_key (metas node)) \<longrightarrow> AddMeta node m = Inr (e, node') \<longrightarrow>
        distinct (map avu_key (metas node')))"
  by (auto simp add: AddMeta_def newError_def split: if_splits)

theorem AddMeta_rejects_duplicate_witness:
  "AddMeta hello word_count = Inr (word_count, hello\<lparr>metas := [word_count]\<rparr>)
   \<and> AddMeta (hello\<lparr>metas := [word_count]\<rparr>) (word_count\<lparr>Units := ''words''\<rparr>)
       = Inl (GoRodsError DuplicateAVU ''attribute and value already attached'')
   \<and> distinct (map avu_key (metas (hello\<lparr>metas := [word_count]\<rparr>)))"
  using AddMeta_rejects_duplicate [of word_count hello word_count "hello\<lparr>metas := [word_count]\<rparr>"]
  by (simp add: AddMeta_def hello_def word_count_def avu_key_def newError_def)

end
